theory Spec2Isabelle
  imports Complex_Main
begin

section \<open>Python values and text\<close>

text \<open>
  A Python \<open>str\<close> is modelled as a \<open>string\<close>; one element stands for one character of
  the Python string, so \<open>length\<close> is Python's \<open>len\<close> and \<open>take 20\<close> is the slice
  \<open>[:20]\<close>.  An apostrophe inside a message is written \<open>CHR 0x27\<close>.
\<close>

definition squote :: "string \<Rightarrow> string" where
  "squote s = CHR 0x27 # s @ [CHR 0x27]"

text \<open>Decimal rendering of numbers, as \<open>str\<close> and f-strings print a Python \<open>int\<close>.\<close>

definition digit_char :: "nat \<Rightarrow> char" where
  "digit_char d = ''0123456789'' ! d"

fun show_nat :: "nat \<Rightarrow> string" where
  "show_nat n = (if n < 10 then [digit_char n] else show_nat (n div 10) @ [digit_char (n mod 10)])"

definition show_int :: "int \<Rightarrow> string" where
  "show_int i = (if i < 0 then CHR ''-'' # show_nat (nat (- i)) else show_nat (nat i))"

section \<open>The calculator tool\<close>

text \<open>
  \<open>calculator(first_num, second_num, operation)\<close> of \<open>langgraph_backend3.py\<close>.  The
  number type is left open: the tool uses its \<open>+\<close>, \<open>-\<close>, \<open>*\<close>, \<open>/\<close> and the comparison
  with \<open>0\<close> and nothing else, so no law of arithmetic is assumed of it.  The result is a
  Python dict, modelled as an association list from keys to values.
\<close>

datatype exc = ZeroDivisionError string | OperationalError string | ProgrammingError string
  | OverflowError string

fun exc_str :: "exc \<Rightarrow> string" where
  "exc_str (ZeroDivisionError m) = m"
| "exc_str (OperationalError m) = m"
| "exc_str (ProgrammingError m) = m"
| "exc_str (OverflowError m) = m"

datatype 'a calc_val = Num 'a | Str string

type_synonym 'a calc_dict = "(string \<times> 'a calc_val) list"

text \<open>Python's \<open>/\<close> raises when the divisor equals zero.\<close>

definition py_truediv :: "'a::{inverse,zero} \<Rightarrow> 'a \<Rightarrow> exc + 'a" where
  "py_truediv a b = (if b = 0 then Inl (ZeroDivisionError ''float division by zero'') else Inr (a / b))"

text \<open>The body of the \<open>try\<close> block: \<open>Inl\<close> is an exception that leaves it.\<close>

definition calculator_try :: "'a::{plus,minus,times,inverse,zero} \<Rightarrow> 'a \<Rightarrow> string \<Rightarrow> exc + 'a calc_dict" where
  "calculator_try first_num second_num operation =
     (let ok = (\<lambda>result. Inr [(''first_num'', Num first_num), (''second_num'', Num second_num),
                               (''operation'', Str operation), (''result'', Num result)])
      in if operation = ''add'' then ok (first_num + second_num)
         else if operation = ''sub'' then ok (first_num - second_num)
         else if operation = ''mul'' then ok (first_num * second_num)
         else if operation = ''div'' then
           (if second_num = 0 then Inr [(''error'', Str ''Division by zero is not allowed'')]
            else (case py_truediv first_num second_num of
                    Inl e \<Rightarrow> Inl e
                  | Inr result \<Rightarrow> ok result))
         else Inr [(''error'', Str (''Unsupported operation '' @ squote operation))])"

text \<open>The \<open>except Exception\<close> clause turns any exception into an error dict.\<close>

definition calculator :: "'a::{plus,minus,times,inverse,zero} \<Rightarrow> 'a \<Rightarrow> string \<Rightarrow> 'a calc_dict" where
  "calculator first_num second_num operation =
     (case calculator_try first_num second_num operation of
        Inl e \<Rightarrow> [(''error'', Str (''Calculator failed: '' @ exc_str e))]
      | Inr d \<Rightarrow> d)"

section \<open>Thread identifiers and SQL parameters\<close>

text \<open>
  The backend functions take a \<open>thread_id\<close> of no fixed Python type: the front end
  passes a \<open>uuid.UUID\<close> object for a fresh chat and a \<open>str\<close> for a listed one, and
  \<open>delete_threads\<close> defaults it to \<open>None\<close>.  \<open>PyUUID u\<close> carries the text \<open>str\<close>
  gives for the UUID.
\<close>

datatype pyval = PyNone | PyStr string | PyInt int | PyUUID string

fun truthy :: "pyval \<Rightarrow> bool" where
  "truthy PyNone = False"
| "truthy (PyStr s) = (s \<noteq> [])"
| "truthy (PyInt i) = (i \<noteq> 0)"
| "truthy (PyUUID u) = True"

text \<open>\<open>str(v)\<close>, which is also what an f-string field prints.\<close>

fun py_str :: "pyval \<Rightarrow> string" where
  "py_str PyNone = ''None''"
| "py_str (PyStr s) = s"
| "py_str (PyInt i) = show_int i"
| "py_str (PyUUID u) = u"

text \<open>
  A value bound to a \<open>?\<close> of a statement.  The \<open>sqlite3\<close> module binds \<open>None\<close>, \<open>str\<close>
  and an \<open>int\<close> that fits a signed 64-bit SQLite \<open>INTEGER\<close>; it raises
  \<open>OverflowError\<close> for an \<open>int\<close> outside that range and an error for an object of
  another class.  \<open>n\<close> is the position of the parameter, which the message of the
  latter exception mentions; the wording of that message varies with the version of
  Python, and no statement below depends on it.
\<close>

datatype sqlval = SqlNull | SqlInteger int | SqlText string

fun bind_parameter :: "nat \<Rightarrow> pyval \<Rightarrow> exc + sqlval" where
  "bind_parameter n PyNone = Inr SqlNull"
| "bind_parameter n (PyStr s) = Inr (SqlText s)"
| "bind_parameter n (PyInt i) =
     (if - (2 ^ 63) \<le> i \<and> i < 2 ^ 63 then Inr (SqlInteger i)
      else Inl (OverflowError ''Python int too large to convert to SQLite INTEGER''))"
| "bind_parameter n (PyUUID u) =
     Inl (ProgrammingError (''Error binding parameter '' @ show_nat n @ '': type ''
                            @ squote ''UUID'' @ '' is not supported''))"

text \<open>
  The comparison \<open>thread_id = ?\<close> on the \<open>TEXT\<close> column \<open>thread_id\<close>: a number is
  compared as its text, and nothing equals \<open>NULL\<close>.
\<close>

fun sql_eq_text :: "string \<Rightarrow> sqlval \<Rightarrow> bool" where
  "sql_eq_text t SqlNull = False"
| "sql_eq_text t (SqlInteger i) = (t = show_int i)"
| "sql_eq_text t (SqlText s) = (t = s)"

section \<open>The checkpoints table\<close>

text \<open>
  The store is the \<open>checkpoints\<close> table of the SQLite file, which the checkpointer
  (\<open>SqliteSaver\<close>, a library outside this repository) creates and fills, one row for each
  step of a thread.  A row is modelled by what the backend reads of it: its
  \<open>thread_id\<close>, the \<open>messages\<close> channel of its checkpoint, and its \<open>thread_title\<close>
  (\<open>None\<close> is \<open>NULL\<close>).  Rows are kept in the order of insertion, so for one thread the
  first row is its oldest checkpoint and the last row its latest.  The table either
  does not exist yet, or has a list of columns (name and declared type) and rows.
\<close>

datatype message = HumanMessage string | AIMessage string | ToolMessage string

fun content :: "message \<Rightarrow> string" where
  "content (HumanMessage c) = c"
| "content (AIMessage c) = c"
| "content (ToolMessage c) = c"

record checkpoint =
  row_thread_id :: string
  row_messages :: "message list"
  row_thread_title :: "string option"

datatype db = NoTable | Table "(string \<times> string) list" "checkpoint list"

fun columns_of :: "db \<Rightarrow> (string \<times> string) list" where
  "columns_of NoTable = []"
| "columns_of (Table cols rows) = cols"

fun rows_of :: "db \<Rightarrow> checkpoint list" where
  "rows_of NoTable = []"
| "rows_of (Table cols rows) = rows"

text \<open>SQLite matches the names of columns without regard to the case of ASCII letters.\<close>

definition lower_char :: "char \<Rightarrow> char" where
  "lower_char c =
     (case map_of (zip ''ABCDEFGHIJKLMNOPQRSTUVWXYZ'' ''abcdefghijklmnopqrstuvwxyz'') c of
        None \<Rightarrow> c
      | Some l \<Rightarrow> l)"

definition same_column :: "string \<Rightarrow> string \<Rightarrow> bool" where
  "same_column a b = (map lower_char a = map lower_char b)"

definition has_column :: "(string \<times> string) list \<Rightarrow> string \<Rightarrow> bool" where
  "has_column cols name = (\<exists>c \<in> set (map fst cols). same_column c name)"

text \<open>
  The columns \<open>SqliteSaver.setup\<close> creates the table with; every method of the
  checkpointer runs \<open>setup\<close> first (\<open>CREATE TABLE IF NOT EXISTS\<close>).
\<close>

definition saver_columns :: "(string \<times> string) list" where
  "saver_columns =
     [(''thread_id'', ''TEXT''), (''checkpoint_ns'', ''TEXT''), (''checkpoint_id'', ''TEXT''),
      (''parent_checkpoint_id'', ''TEXT''), (''type'', ''TEXT''), (''checkpoint'', ''BLOB''),
      (''metadata'', ''BLOB'')]"

fun saver_setup :: "db \<Rightarrow> db" where
  "saver_setup NoTable = Table saver_columns []"
| "saver_setup (Table cols rows) = Table cols rows"

text \<open>
  \<open>ALTER TABLE checkpoints ADD COLUMN name type\<close>, for a name and a type that the SQL
  parser accepts as such: it fails when the table has a column of that name, and the
  new column is \<open>NULL\<close> in every row.
\<close>

definition sqlite_add_column :: "(string \<times> string) list \<Rightarrow> checkpoint list \<Rightarrow> string \<Rightarrow> string \<Rightarrow> exc + db" where
  "sqlite_add_column cols rows name type =
     (if has_column cols name then Inl (OperationalError (''duplicate column name: '' @ name))
      else Inr (Table (cols @ [(name, type)])
                  (if same_column name ''thread_title''
                   then map (\<lambda>r. r\<lparr>row_thread_title := None\<rparr>) rows else rows)))"

text \<open>
  \<open>SELECT thread_title FROM checkpoints WHERE thread_id = ?\<close> followed by \<open>fetchone()\<close>:
  \<open>None\<close> when no row matches, else the title of the first matching row.
\<close>

definition select_thread_title :: "db \<Rightarrow> sqlval \<Rightarrow> exc + string option option" where
  "select_thread_title d v =
     (case d of
        NoTable \<Rightarrow> Inl (OperationalError ''no such table: checkpoints'')
      | Table cols rows \<Rightarrow>
          if \<not> has_column cols ''thread_title''
          then Inl (OperationalError ''no such column: thread_title'')
          else Inr (case filter (\<lambda>r. sql_eq_text (row_thread_id r) v) rows of
                      [] \<Rightarrow> None
                    | r # _ \<Rightarrow> Some (row_thread_title r)))"

text \<open>
  \<open>checkpointer.list(None)\<close> as the backend uses it: the set of the thread ids of all
  rows.  A Python set is iterated in an order the language leaves open; the model
  takes the order of \<open>remdups\<close>, and no theorem below depends on it.
\<close>

definition all_thread_ids :: "db \<Rightarrow> string list" where
  "all_thread_ids d = remdups (map row_thread_id (rows_of d))"

text \<open>\<open>checkpointer.delete_thread(thread_id)\<close> deletes the rows of \<open>str(thread_id)\<close>.\<close>

definition delete_thread :: "db \<Rightarrow> pyval \<Rightarrow> db" where
  "delete_thread d thread_id =
     (case saver_setup d of
        NoTable \<Rightarrow> NoTable
      | Table cols rows \<Rightarrow> Table cols (filter (\<lambda>r. row_thread_id r \<noteq> py_str thread_id) rows))"

section \<open>The backend's functions over the store\<close>

text \<open>\<open>add_column_to_checkpoints_table\<close>: the body of the \<open>try\<close>, then the function.\<close>

definition add_column_try :: "db \<Rightarrow> string \<Rightarrow> string \<Rightarrow> exc + ((bool \<times> string) \<times> db)" where
  "add_column_try d column_name column_type =
     (case d of
        NoTable \<Rightarrow> Inr ((False, ''Table '' @ squote ''checkpoints'' @ '' not created yet.''), d)
      | Table cols rows \<Rightarrow>
          (let columns = map fst cols
           in if column_name \<notin> set columns
              then (case sqlite_add_column cols rows column_name column_type of
                      Inl e \<Rightarrow> Inl e
                    | Inr d' \<Rightarrow> Inr ((True, ''Column '' @ squote column_name @ '' added successfully.''), d'))
              else Inr ((True, ''Column '' @ squote column_name @ '' already exists.''), d)))"

definition add_column_to_checkpoints_table :: "db \<Rightarrow> string \<Rightarrow> string \<Rightarrow> (bool \<times> string) \<times> db" where
  "add_column_to_checkpoints_table d column_name column_type =
     (case add_column_try d column_name column_type of
        Inl e \<Rightarrow> ((False, ''Error adding column '' @ squote column_name @ '': '' @ exc_str e), d)
      | Inr r \<Rightarrow> r)"

text \<open>
  \<open>load_conversation\<close>: \<open>chatbot.get_state\<close> reads the latest checkpoint of
  \<open>str(thread_id)\<close> and the function returns its messages, or \<open>[]\<close> for a thread
  without checkpoint.  Both callers below reach it when the table exists, so it is a
  pure read; \<open>get_state\<close> is taken not to raise, so the \<open>except\<close> clause of
  \<open>load_conversation\<close> has no branch here.
\<close>

definition load_conversation :: "db \<Rightarrow> pyval \<Rightarrow> message list" where
  "load_conversation d thread_id =
     (case filter (\<lambda>r. row_thread_id r = py_str thread_id) (rows_of d) of
        [] \<Rightarrow> []
      | r # rs \<Rightarrow> row_messages (last (r # rs)))"

text \<open>\<open>get_message_content\<close>: every message of a checkpoint has the attribute \<open>content\<close>.\<close>

definition get_message_content :: "message \<Rightarrow> string" where
  "get_message_content msg = content msg"

text \<open>
  The expression \<open>x[:20] + "..." if len(x) > 20 else x\<close>, which the source writes out
  in \<open>get_thread_by_id\<close>, in \<open>retrieve_all_threads\<close> and in the front end.
\<close>

definition title_of_text :: "string \<Rightarrow> string" where
  "title_of_text x = (if length x > 20 then take 20 x @ ''...'' else x)"

text \<open>The dict that describes a thread.\<close>

record thread =
  thread_id :: pyval
  messages :: "message list"
  thread_title :: string

text \<open>\<open>row and row[0]\<close>: a row was fetched and its title is neither \<open>NULL\<close> nor empty.\<close>

fun row_title :: "string option option \<Rightarrow> string option" where
  "row_title None = None"
| "row_title (Some None) = None"
| "row_title (Some (Some t)) = (if t = [] then None else Some t)"

definition get_thread_by_id :: "db \<Rightarrow> pyval \<Rightarrow> thread" where
  "get_thread_by_id d tid =
     (case select_thread_title d (SqlText (py_str tid)) of
        Inl e \<Rightarrow> \<lparr>thread_id = tid, messages = [], thread_title = ''Error: '' @ exc_str e\<rparr>
      | Inr row \<Rightarrow>
          (let msgs = load_conversation d tid;
               title = (case row_title row of
                          Some t \<Rightarrow> t
                        | None \<Rightarrow>
                            if msgs \<noteq> [] then title_of_text (get_message_content (hd msgs))
                            else ''New Chat'')
           in \<lparr>thread_id = tid, messages = msgs, thread_title = title\<rparr>))"

text \<open>The loop of \<open>retrieve_all_threads\<close> over the thread ids; \<open>Inl\<close> is an exception.\<close>

fun threads_loop :: "db \<Rightarrow> string list \<Rightarrow> exc + thread list" where
  "threads_loop d [] = Inr []"
| "threads_loop d (t # ts) =
     (let msgs = load_conversation d (PyStr t)
      in case select_thread_title d (SqlText t) of
           Inl e \<Rightarrow> Inl e
         | Inr row \<Rightarrow>
             (let title = (case row_title row of
                             Some s \<Rightarrow> s
                           | None \<Rightarrow>
                               (let default = ''New Chat''
                                in if msgs \<noteq> [] then title_of_text (get_message_content (hd msgs))
                                   else default))
              in case threads_loop d ts of
                   Inl e \<Rightarrow> Inl e
                 | Inr objs \<Rightarrow> Inr (\<lparr>thread_id = PyStr t, messages = msgs, thread_title = title\<rparr> # objs)))"

definition retrieve_all_threads :: "db \<Rightarrow> thread list \<times> db" where
  "retrieve_all_threads d =
     (let d1 = saver_setup d
      in case threads_loop d1 (all_thread_ids d1) of
           Inl e \<Rightarrow> ([\<lparr>thread_id = PyNone, messages = [], thread_title = ''Error: '' @ exc_str e\<rparr>], d1)
         | Inr objs \<Rightarrow> (objs, d1))"

text \<open>\<open>delete_threads\<close>: one thread when the argument is truthy, else every thread.\<close>

definition delete_threads :: "db \<Rightarrow> pyval \<Rightarrow> (bool \<times> string) \<times> db" where
  "delete_threads d tid =
     (if truthy tid
      then ((True, ''Successfully deleted conversation with ID: '' @ py_str tid), delete_thread d tid)
      else (let d1 = saver_setup d;
                all_threads = all_thread_ids d1;
                d2 = fold (\<lambda>t_id acc. delete_thread acc (PyStr t_id)) all_threads d1
            in ((True, ''Successfully deleted '' @ show_nat (length all_threads) @ '' conversations''), d2)))"

text \<open>
  \<open>update_thread_title\<close>: the statement is prepared (the table and the column must
  exist), its parameters are bound, every row of the thread gets the title, and
  \<open>rowcount\<close> is the number of rows matched.
\<close>

definition update_thread_title_try :: "db \<Rightarrow> pyval \<Rightarrow> string \<Rightarrow> exc + ((bool \<times> string) \<times> db)" where
  "update_thread_title_try d tid new_title =
     (case d of
        NoTable \<Rightarrow> Inl (OperationalError ''no such table: checkpoints'')
      | Table cols rows \<Rightarrow>
          if \<not> has_column cols ''thread_title''
          then Inl (OperationalError ''no such column: thread_title'')
          else (case bind_parameter 2 tid of
                  Inl e \<Rightarrow> Inl e
                | Inr v \<Rightarrow>
                    (let d' = Table cols (map (\<lambda>r. if sql_eq_text (row_thread_id r) v
                                                     then r\<lparr>row_thread_title := Some new_title\<rparr> else r) rows);
                         rowcount = length (filter (\<lambda>r. sql_eq_text (row_thread_id r) v) rows)
                     in if rowcount = 0
                        then Inr ((False, ''No thread found with ID: '' @ py_str tid), d')
                        else Inr ((True, ''Thread title updated successfully for ID: '' @ py_str tid), d'))))"

definition update_thread_title :: "db \<Rightarrow> pyval \<Rightarrow> string \<Rightarrow> (bool \<times> string) \<times> db" where
  "update_thread_title d tid new_title =
     (case update_thread_title_try d tid new_title of
        Inl e \<Rightarrow> ((False, ''Error updating thread title for ID '' @ squote (py_str tid) @ '': '' @ exc_str e), d)
      | Inr r \<Rightarrow> r)"

section \<open>The front end's handling of a user message\<close>

text \<open>
  The part of \<open>streamlit_frontend5.py\<close> that titles a thread when the user submits
  \<open>user_input\<close>: it runs for a non-empty input, before the message reaches the graph.
\<close>

definition title_on_user_input :: "db \<Rightarrow> pyval \<Rightarrow> string \<Rightarrow> db" where
  "title_on_user_input d session_thread_id user_input =
     (if user_input = [] then d
      else (let thr = get_thread_by_id d session_thread_id
            in if thread_title thr = ''New Chat''
               then (let new_title = (if length user_input > 20 then take 20 user_input @ ''...''
                                      else user_input)
                     in snd (update_thread_title d session_thread_id new_title))
               else d))"

section \<open>Observations used in the statements\<close>

text \<open>The title stored for a thread: the \<open>thread_title\<close> of its oldest row, if it has a row.\<close>

definition stored_title :: "db \<Rightarrow> string \<Rightarrow> string option" where
  "stored_title d t =
     (case filter (\<lambda>r. row_thread_id r = t) (rows_of d) of
        [] \<Rightarrow> None
      | r # _ \<Rightarrow> row_thread_title r)"

text \<open>
  The precedence the specification gives for the title of a listed thread, in its own
  words: the stored title if present and non-default, else a title derived from the
  first message, else \<open>New Chat\<close>.
\<close>

definition spec_list_title :: "string option \<Rightarrow> message list \<Rightarrow> string" where
  "spec_list_title stored msgs =
     (let derived = (case msgs of [] \<Rightarrow> ''New Chat'' | m # _ \<Rightarrow> title_of_text (content m))
      in case stored of
           None \<Rightarrow> derived
         | Some s \<Rightarrow> if s \<noteq> ''New Chat'' then s else derived)"

text \<open>
  A store to evaluate the functions on: the checkpointer's table with the title
  column added, thread \<open>t1\<close> with two checkpoints and the title \<open>New Chat\<close> stored on
  the older one, thread \<open>t2\<close> with one checkpoint and no title.
\<close>

definition titled_columns :: "(string \<times> string) list" where
  "titled_columns = saver_columns @ [(''thread_title'', ''TEXT'')]"

definition example_rows :: "checkpoint list" where
  "example_rows =
     [\<lparr>row_thread_id = ''t1'', row_messages = [HumanMessage ''Hello''],
       row_thread_title = Some ''New Chat''\<rparr>,
      \<lparr>row_thread_id = ''t2'', row_messages = [HumanMessage ''Hi''], row_thread_title = None\<rparr>,
      \<lparr>row_thread_id = ''t1'', row_messages = [HumanMessage ''Hello'', AIMessage ''Hi there''],
       row_thread_title = None\<rparr>]"

definition example_db :: db where
  "example_db = Table titled_columns example_rows"

section \<open>Auxiliary facts\<close>

subsection \<open>Deleting rows and listing thread ids\<close>

lemma same_column_refl: "same_column a a"
  by (simp add: same_column_def)

lemma fold_delete:
  "fold (\<lambda>t acc. delete_thread acc (PyStr t)) ids (Table cols rows)
     = Table cols (filter (\<lambda>r. row_thread_id r \<notin> set ids) rows)"
proof (induction ids arbitrary: rows)
  case Nil
  then show ?case by simp
next
  case (Cons t ts)
  have "delete_thread (Table cols rows) (PyStr t) = Table cols (filter (\<lambda>r. row_thread_id r \<noteq> t) rows)"
    by (simp add: delete_thread_def)
  then show ?case using Cons.IH by (simp add: conj_commute)
qed

lemma threads_loop_ids:
  "threads_loop d ids = Inr objs \<Longrightarrow> map thread_id objs = map PyStr ids"
  by (induction ids arbitrary: objs) (auto simp: Let_def split: sum.splits)

lemma delete_all_rows:
  "snd (delete_threads d PyNone) = Table (columns_of (saver_setup d)) []"
proof (cases d)
  case NoTable
  then show ?thesis by (simp add: delete_threads_def all_thread_ids_def)
next
  case (Table cols rows)
  then show ?thesis
    by (simp add: delete_threads_def all_thread_ids_def fold_delete Let_def)
qed

lemma retrieve_empty: "fst (retrieve_all_threads (Table cols [])) = []"
  by (simp add: retrieve_all_threads_def all_thread_ids_def)

lemma retrieve_ids:
  "thread_id ` set (fst (retrieve_all_threads d)) \<subseteq> insert PyNone (PyStr ` row_thread_id ` set (rows_of d))"
proof (cases "threads_loop (saver_setup d) (all_thread_ids (saver_setup d))")
  case (Inl e)
  then show ?thesis by (simp add: retrieve_all_threads_def)
next
  case (Inr objs)
  have "rows_of (saver_setup d) = rows_of d" by (cases d) simp_all
  with threads_loop_ids [OF Inr] have "thread_id ` set objs = PyStr ` row_thread_id ` set (rows_of d)"
    by (metis all_thread_ids_def image_set set_remdups)
  with Inr show ?thesis by (auto simp: retrieve_all_threads_def)
qed

lemma delete_all_result:
  "delete_threads d PyNone =
     ((True, ''Successfully deleted '' @ show_nat (card (row_thread_id ` set (rows_of d))) @ '' conversations''),
      Table (columns_of (saver_setup d)) [])"
proof -
  have rows: "rows_of (saver_setup d) = rows_of d" by (cases d) simp_all
  have "fst (delete_threads d PyNone) =
       (True, ''Successfully deleted '' @ show_nat (card (row_thread_id ` set (rows_of d))) @ '' conversations'')"
    by (simp add: delete_threads_def Let_def all_thread_ids_def rows length_remdups_card_conv)
  with delete_all_rows [of d] show ?thesis by (simp add: prod_eq_iff)
qed

lemma delete_falsy: "\<not> truthy tid \<Longrightarrow> delete_threads d tid = delete_threads d PyNone"
  by (simp add: delete_threads_def)

subsection \<open>The effect of the title update on the rows\<close>

lemma sql_eq_text_bound:
  "bind_parameter n tid = Inr v \<Longrightarrow> sql_eq_text t v \<Longrightarrow> t = py_str tid"
  by (cases tid) (auto split: if_splits)

lemma update_rows_shape:
  "\<exists>f. rows_of (snd (update_thread_title d tid new_title)) = map f (rows_of d)
       \<and> (\<forall>r. row_thread_id (f r) = row_thread_id r \<and> row_messages (f r) = row_messages r
              \<and> (row_thread_id r \<noteq> py_str tid \<longrightarrow> f r = r))"
proof (cases "update_thread_title_try d tid new_title")
  case (Inl e)
  then have "snd (update_thread_title d tid new_title) = d"
    by (simp add: update_thread_title_def)
  then show ?thesis by (intro exI [of _ id]) simp
next
  case (Inr res)
  then obtain cols rows v where d: "d = Table cols rows" and b: "bind_parameter 2 tid = Inr v"
    and col: "has_column cols ''thread_title''"
    by (auto simp: update_thread_title_try_def split: db.splits if_splits sum.splits)
  let ?f = "\<lambda>r. if sql_eq_text (row_thread_id r) v then r\<lparr>row_thread_title := Some new_title\<rparr> else r"
  have "rows_of (snd (update_thread_title d tid new_title)) = map ?f (rows_of d)"
    using d b col by (simp add: update_thread_title_def update_thread_title_try_def Let_def)
  moreover have "\<forall>r. row_thread_id (?f r) = row_thread_id r \<and> row_messages (?f r) = row_messages r
              \<and> (row_thread_id r \<noteq> py_str tid \<longrightarrow> ?f r = r)"
    using sql_eq_text_bound [OF b] by auto
  ultimately show ?thesis by blast
qed

lemma update_columns: "columns_of (snd (update_thread_title d tid new_title)) = columns_of d"
  by (auto simp: update_thread_title_def update_thread_title_try_def Let_def
           split: db.splits sum.splits)

lemma filter_map_frame:
  assumes "\<forall>r. P (f r) = P r" and "\<forall>r. P r \<longrightarrow> f r = r"
  shows "filter P (map f rows) = filter P rows"
  using assms by (induction rows) auto

lemma filter_map_keep:
  assumes "\<forall>r. P (f r) = P r"
  shows "filter P (map f rows) = map f (filter P rows)"
  using assms by (induction rows) auto

lemma load_conversation_update:
  "load_conversation (snd (update_thread_title d tid new_title)) t = load_conversation d t"
proof -
  obtain f where rows: "rows_of (snd (update_thread_title d tid new_title)) = map f (rows_of d)"
    and f: "\<forall>r. row_thread_id (f r) = row_thread_id r \<and> row_messages (f r) = row_messages r
              \<and> (row_thread_id r \<noteq> py_str tid \<longrightarrow> f r = r)"
    using update_rows_shape by blast
  let ?P = "\<lambda>r. row_thread_id r = py_str t"
  have "filter ?P (map f (rows_of d)) = map f (filter ?P (rows_of d))"
    using f by (intro filter_map_keep) simp
  moreover have "xs \<noteq> [] \<Longrightarrow> row_messages (last (map f xs)) = row_messages (last xs)" for xs
    using f by (simp add: last_map)
  ultimately show ?thesis
    unfolding load_conversation_def rows
    by (cases "filter ?P (rows_of d)") (simp_all add: last_map f)
qed

lemma select_title_update_other:
  assumes "s \<noteq> py_str tid"
  shows "select_thread_title (snd (update_thread_title d tid new_title)) (SqlText s)
         = select_thread_title d (SqlText s)"
proof -
  obtain f where rows: "rows_of (snd (update_thread_title d tid new_title)) = map f (rows_of d)"
    and f: "\<forall>r. row_thread_id (f r) = row_thread_id r \<and> row_messages (f r) = row_messages r
              \<and> (row_thread_id r \<noteq> py_str tid \<longrightarrow> f r = r)"
    using update_rows_shape by blast
  have cols: "columns_of (snd (update_thread_title d tid new_title)) = columns_of d"
    by (rule update_columns)
  let ?P = "\<lambda>r. sql_eq_text (row_thread_id r) (SqlText s)"
  have filt: "filter ?P (map f (rows_of d)) = filter ?P (rows_of d)"
    using f assms by (intro filter_map_frame) auto
  show ?thesis
  proof (cases d)
    case NoTable
    then show ?thesis by (simp add: update_thread_title_def update_thread_title_try_def)
  next
    case (Table c rs)
    then obtain rs' where d': "snd (update_thread_title d tid new_title) = Table c rs'"
      using cols by (cases "snd (update_thread_title d tid new_title)")
                    (auto simp: update_thread_title_def update_thread_title_try_def Let_def split: sum.splits if_splits)
    with rows Table have "rs' = map f rs" by simp
    with filt Table d' show ?thesis by (simp add: select_thread_title_def)
  qed
qed

lemma get_thread_update_other:
  assumes "py_str t \<noteq> py_str tid"
  shows "get_thread_by_id (snd (update_thread_title d tid new_title)) t = get_thread_by_id d t"
  unfolding get_thread_by_id_def
  by (simp add: select_title_update_other [OF assms] load_conversation_update cong: sum.case_cong)

lemma update_existing:
  assumes "has_column cols ''thread_title''" and "s \<in> row_thread_id ` set rows"
  shows "update_thread_title (Table cols rows) (PyStr s) new_title =
           ((True, ''Thread title updated successfully for ID: '' @ s),
            Table cols (map (\<lambda>r. if row_thread_id r = s then r\<lparr>row_thread_title := Some new_title\<rparr> else r) rows))"
proof -
  have "filter (\<lambda>r. row_thread_id r = s) rows \<noteq> []"
    using assms(2) by (auto simp: filter_empty_conv)
  then show ?thesis using assms(1)
    by (simp add: update_thread_title_def update_thread_title_try_def Let_def)
qed

lemma title_new_chat_column:
  assumes "thread_title (get_thread_by_id d tid) = ''New Chat''"
  shows "\<exists>cols rows. d = Table cols rows \<and> has_column cols ''thread_title''"
  using assms
  by (cases d) (auto simp: get_thread_by_id_def select_thread_title_def split: if_splits)

lemma stored_title_updated:
  assumes "s \<in> row_thread_id ` set rows"
  shows "filter (\<lambda>r. row_thread_id r = s)
           (map (\<lambda>r. if row_thread_id r = s then r\<lparr>row_thread_title := Some new_title\<rparr> else r) rows)
         = map (\<lambda>r. r\<lparr>row_thread_title := Some new_title\<rparr>) (filter (\<lambda>r. row_thread_id r = s) rows)"
  by (induction rows) auto

subsection \<open>Adding a column\<close>

lemma add_existing:
  "column_name \<in> set (map fst cols) \<Longrightarrow>
   add_column_to_checkpoints_table (Table cols rows) column_name column_type
     = ((True, ''Column '' @ squote column_name @ '' already exists.''), Table cols rows)"
  by (simp add: add_column_to_checkpoints_table_def add_column_try_def)

lemma add_fresh:
  assumes "\<not> has_column cols column_name"
  shows "add_column_to_checkpoints_table (Table cols rows) column_name column_type
     = ((True, ''Column '' @ squote column_name @ '' added successfully.''),
        Table (cols @ [(column_name, column_type)])
          (if same_column column_name ''thread_title''
           then map (\<lambda>r. r\<lparr>row_thread_title := None\<rparr>) rows else rows))"
proof -
  have "column_name \<notin> set (map fst cols)"
    using assms same_column_refl by (auto simp: has_column_def)
  then show ?thesis using assms
    by (simp add: add_column_to_checkpoints_table_def add_column_try_def sqlite_add_column_def)
qed

subsection \<open>The titles of listed threads\<close>

lemma row_title_stored:
  assumes "has_column cols ''thread_title''"
  shows "\<exists>row. select_thread_title (Table cols rows) (SqlText t) = Inr row
           \<and> row_title row = (case stored_title (Table cols rows) t of
                                 Some (c # cs) \<Rightarrow> Some (c # cs)
                               | _ \<Rightarrow> None)"
  using assms
  by (auto simp: select_thread_title_def stored_title_def split: list.splits option.splits)

lemma threads_loop_titled:
  assumes "has_column cols ''thread_title''"
  shows "threads_loop (Table cols rows) ids =
           Inr (map (\<lambda>t. \<lparr>thread_id = PyStr t,
                           messages = load_conversation (Table cols rows) (PyStr t),
                           thread_title =
                             (case stored_title (Table cols rows) t of
                                Some (c # cs) \<Rightarrow> c # cs
                              | _ \<Rightarrow> (case load_conversation (Table cols rows) (PyStr t) of
                                        [] \<Rightarrow> ''New Chat''
                                      | m # _ \<Rightarrow> if length (content m) > 20
                                                 then take 20 (content m) @ ''...'' else content m))\<rparr>) ids)"
proof (induction ids)
  case Nil
  then show ?case by simp
next
  case (Cons t ts)
  from row_title_stored [OF assms, of rows t] obtain row
    where sel: "select_thread_title (Table cols rows) (SqlText t) = Inr row"
      and rt: "row_title row = (case stored_title (Table cols rows) t of
                                 Some (c # cs) \<Rightarrow> Some (c # cs) | _ \<Rightarrow> None)"
    by blast
  show ?case
    using Cons.IH sel rt
    by (auto simp: Let_def title_of_text_def get_message_content_def
             split: option.splits list.splits)
qed

subsection \<open>The example store, evaluated\<close>

lemma example_has_title: "has_column titled_columns ''thread_title''"
  by (simp add: titled_columns_def has_column_def same_column_def)

lemma ex_retrieve: "fst (retrieve_all_threads example_db) =
   [\<lparr>thread_id = PyStr ''t2'', messages = [HumanMessage ''Hi''], thread_title = ''Hi''\<rparr>,
    \<lparr>thread_id = PyStr ''t1'', messages = [HumanMessage ''Hello'', AIMessage ''Hi there''],
      thread_title = ''New Chat''\<rparr>]"
  by (simp add: retrieve_all_threads_def example_db_def example_rows_def all_thread_ids_def
      select_thread_title_def example_has_title load_conversation_def Let_def title_of_text_def
      get_message_content_def)

lemma example_columns: "columns_of example_db = titled_columns"
  by (simp add: example_db_def)

lemma example_ids: "row_thread_id ` set (rows_of example_db) = {''t1'', ''t2''}"
  by (auto simp: example_db_def example_rows_def)

lemma example_t1: "thread_title (get_thread_by_id example_db (PyStr ''t1'')) = ''New Chat''"
  by (simp add: get_thread_by_id_def select_thread_title_def example_db_def example_rows_def
      example_has_title load_conversation_def Let_def)

lemma example_t2: "get_thread_by_id example_db (PyStr ''t2'') =
    \<lparr>thread_id = PyStr ''t2'', messages = [HumanMessage ''Hi''], thread_title = ''Hi''\<rparr>"
  by (simp add: get_thread_by_id_def select_thread_title_def example_db_def example_rows_def
      example_has_title load_conversation_def Let_def title_of_text_def get_message_content_def)

lemma example_update_t1:
  "update_thread_title example_db (PyStr ''t1'') new_title =
     ((True, ''Thread title updated successfully for ID: t1''),
      Table titled_columns
        [\<lparr>row_thread_id = ''t1'', row_messages = [HumanMessage ''Hello''],
          row_thread_title = Some new_title\<rparr>,
         \<lparr>row_thread_id = ''t2'', row_messages = [HumanMessage ''Hi''], row_thread_title = None\<rparr>,
         \<lparr>row_thread_id = ''t1'', row_messages = [HumanMessage ''Hello'', AIMessage ''Hi there''],
          row_thread_title = Some new_title\<rparr>])"
  by (simp add: update_thread_title_def update_thread_title_try_def example_db_def example_rows_def
      example_has_title Let_def)

lemma example_t2_stored: "stored_title example_db ''t2'' = None"
  by (simp add: stored_title_def example_db_def example_rows_def)

lemma example_t2_messages: "load_conversation example_db (PyStr ''t2'') = [HumanMessage ''Hi'']"
  by (simp add: load_conversation_def example_db_def example_rows_def)

text \<open>An \<open>int\<close> beyond 64 bits is not bound: the update takes the \<open>except\<close> clause.\<close>

lemma update_oversize_int: "update_thread_title example_db (PyInt (2 ^ 63)) ''Renamed'' =
  ((False, ''Error updating thread title for ID '' @ squote (py_str (PyInt (2 ^ 63))) @ '': ''
      @ ''Python int too large to convert to SQLite INTEGER''), example_db)"
  by (simp add: update_thread_title_def update_thread_title_try_def example_db_def example_has_title)

section \<open>Properties of the calculator\<close>

text \<open>
  C1.  For all numbers \<open>a\<close>, \<open>b\<close> and every operation among add, sub, mul, div, with \<open>b\<close>
  nonzero when the operation is div, the calculator returns the record with
  \<open>first_num = a\<close>, \<open>second_num = b\<close>, the operation tag and \<open>result\<close> equal to
  \<open>a + b\<close>, \<open>a - b\<close>, \<open>a * b\<close>, \<open>a / b\<close> respectively.
\<close>

theorem calculator_correct:
  "calculator a b ''add'' =
     [(''first_num'', Num a), (''second_num'', Num b), (''operation'', Str ''add''), (''result'', Num (a + b))]
   \<and> calculator a b ''sub'' =
     [(''first_num'', Num a), (''second_num'', Num b), (''operation'', Str ''sub''), (''result'', Num (a - b))]
   \<and> calculator a b ''mul'' =
     [(''first_num'', Num a), (''second_num'', Num b), (''operation'', Str ''mul''), (''result'', Num (a * b))]
   \<and> (b \<noteq> 0 \<longrightarrow> calculator a b ''div'' =
     [(''first_num'', Num a), (''second_num'', Num b), (''operation'', Str ''div''), (''result'', Num (a / b))])"
  by (simp add: calculator_def calculator_try_def py_truediv_def)

theorem calculator_correct_witness:
  "calculator (12::real) 7 ''mul'' =
     [(''first_num'', Num 12), (''second_num'', Num 7), (''operation'', Str ''mul''), (''result'', Num 84)]
   \<and> (7::real) \<noteq> 0
   \<and> calculator (12::real) 7 ''div'' =
     [(''first_num'', Num 12), (''second_num'', Num 7), (''operation'', Str ''div''), (''result'', Num (12 / 7))]"
  using calculator_correct [of "12::real" 7] by simp

text \<open>
  C2.  With operation div and a zero second number the calculator returns an error dict
  (key \<open>error\<close>, no key \<open>result\<close>); for an operation outside add, sub, mul, div it
  returns an error dict whose text carries the operation.  The calculator is a total
  function into dicts: no exception leaves it.
\<close>

theorem calculator_errors:
  "calculator a 0 ''div'' = [(''error'', Str ''Division by zero is not allowed'')]
   \<and> map_of (calculator a 0 ''div'') ''result'' = None
   \<and> (operation \<notin> {''add'', ''sub'', ''mul'', ''div''} \<longrightarrow>
        calculator a b operation = [(''error'', Str (''Unsupported operation '' @ squote operation))])"
  by (simp add: calculator_def calculator_try_def)

theorem calculator_errors_witness:
  "''mod'' \<notin> {''add'', ''sub'', ''mul'', ''div''}
   \<and> calculator (5::real) 0 ''div'' = [(''error'', Str ''Division by zero is not allowed'')]
   \<and> calculator (5::real) 3 ''mod'' = [(''error'', Str (''Unsupported operation '' @ squote ''mod''))]"
  using calculator_errors [of "5::real" "''mod''" 3] by simp

section \<open>Properties of the thread store\<close>

text \<open>
  C3.  When the user submits a message, the title derived from it is its first 20
  characters followed by \<open>...\<close> if it is longer than 20 characters, and the message
  itself otherwise.  The derivation is applied only when the title that
  \<open>get_thread_by_id\<close> reports for the thread is exactly \<open>New Chat\<close>: for any other title
  the store is left as it is; for \<open>New Chat\<close> the store is updated with the derived
  title, and where the thread has rows the title is stored and reported afterwards.
  The same rule gives the title \<open>get_thread_by_id\<close> derives from the first message of a
  thread without stored title.
\<close>

theorem auto_title:
  "(thread_title (get_thread_by_id d tid) \<noteq> ''New Chat'' \<longrightarrow> title_on_user_input d tid s = d)
   \<and> (s \<noteq> [] \<and> thread_title (get_thread_by_id d tid) = ''New Chat'' \<longrightarrow>
        title_on_user_input d tid s
          = snd (update_thread_title d tid (if length s > 20 then take 20 s @ ''...'' else s)))
   \<and> (s \<noteq> [] \<and> thread_title (get_thread_by_id d (PyStr t)) = ''New Chat''
        \<and> t \<in> row_thread_id ` set (rows_of d) \<longrightarrow>
        stored_title (title_on_user_input d (PyStr t) s) t
          = Some (if length s > 20 then take 20 s @ ''...'' else s)
        \<and> thread_title (get_thread_by_id (title_on_user_input d (PyStr t) s) (PyStr t))
          = (if length s > 20 then take 20 s @ ''...'' else s))
   \<and> (has_column (columns_of d) ''thread_title'' \<and> stored_title d t \<in> {None, Some []}
        \<and> load_conversation d (PyStr t) = m # ms \<longrightarrow>
        thread_title (get_thread_by_id d (PyStr t))
          = (if length (content m) > 20 then take 20 (content m) @ ''...'' else content m))"
proof -
  let ?new = "if length s > 20 then take 20 s @ ''...'' else s"
  have a: "title_on_user_input d tid s = d" if "thread_title (get_thread_by_id d tid) \<noteq> ''New Chat''"
    using that by (simp add: title_on_user_input_def Let_def)
  have b: "title_on_user_input d tid s = snd (update_thread_title d tid ?new)"
    if "s \<noteq> []" "thread_title (get_thread_by_id d tid) = ''New Chat''" for tid
    using that by (simp add: title_on_user_input_def Let_def)
  have c: "stored_title (title_on_user_input d (PyStr t) s) t = Some ?new
        \<and> thread_title (get_thread_by_id (title_on_user_input d (PyStr t) s) (PyStr t)) = ?new"
    if s: "s \<noteq> []" and nc: "thread_title (get_thread_by_id d (PyStr t)) = ''New Chat''"
      and t: "t \<in> row_thread_id ` set (rows_of d)"
  proof -
    from title_new_chat_column [OF nc] obtain cols rows
      where d: "d = Table cols rows" and col: "has_column cols ''thread_title''" by blast
    from t d have t': "t \<in> row_thread_id ` set rows" by simp
    let ?g = "\<lambda>r. if row_thread_id r = t then r\<lparr>row_thread_title := Some ?new\<rparr> else r"
    have d': "title_on_user_input d (PyStr t) s = Table cols (map ?g rows)"
      using b [OF s nc] update_existing [OF col t', of ?new] d by simp
    from t' obtain r rs where f: "filter (\<lambda>r. row_thread_id r = t) rows = r # rs"
      by (cases "filter (\<lambda>r. row_thread_id r = t) rows") (auto simp: filter_empty_conv)
    have f': "filter (\<lambda>r. row_thread_id r = t) (map ?g rows)
                = r\<lparr>row_thread_title := Some ?new\<rparr> # map (\<lambda>r. r\<lparr>row_thread_title := Some ?new\<rparr>) rs"
      using stored_title_updated [OF t', of ?new] f by simp
    have st: "stored_title (Table cols (map ?g rows)) t = Some ?new"
      unfolding stored_title_def rows_of.simps f' by simp
    have ne: "?new \<noteq> []" using s by simp
    have "select_thread_title (Table cols (map ?g rows)) (SqlText t) = Inr (Some (Some ?new))"
      using col f' by (simp add: select_thread_title_def)
    then have "thread_title (get_thread_by_id (Table cols (map ?g rows)) (PyStr t)) = ?new"
      using ne by (simp add: get_thread_by_id_def Let_def)
    with st d' show ?thesis by simp
  qed
  have e: "thread_title (get_thread_by_id d (PyStr t))
          = (if length (content m) > 20 then take 20 (content m) @ ''...'' else content m)"
    if col: "has_column (columns_of d) ''thread_title''" and st: "stored_title d t \<in> {None, Some []}"
      and msgs: "load_conversation d (PyStr t) = m # ms"
  proof -
    from col obtain cols rows where d: "d = Table cols rows" by (cases d) (auto simp: has_column_def)
    have "\<exists>row. select_thread_title d (SqlText t) = Inr row \<and> row_title row = None"
      using col st d
      by (auto simp: select_thread_title_def stored_title_def split: list.splits)
    then show ?thesis using msgs
      by (auto simp: get_thread_by_id_def Let_def title_of_text_def get_message_content_def)
  qed
  show ?thesis using a b c e by blast
qed

theorem auto_title_witness:
  "thread_title (get_thread_by_id example_db (PyStr ''t1'')) = ''New Chat''
   \<and> ''t1'' \<in> row_thread_id ` set (rows_of example_db)
   \<and> stored_title (title_on_user_input example_db (PyStr ''t1'') ''Hello there, how are you doing today?'') ''t1''
       = Some ''Hello there, how are...''
   \<and> thread_title (get_thread_by_id example_db (PyStr ''t2'')) \<noteq> ''New Chat''
   \<and> title_on_user_input example_db (PyStr ''t2'') ''A second message'' = example_db
   \<and> has_column (columns_of example_db) ''thread_title''
   \<and> stored_title example_db ''t2'' \<in> {None, Some []}
   \<and> load_conversation example_db (PyStr ''t2'') = [HumanMessage ''Hi'']
   \<and> thread_title (get_thread_by_id example_db (PyStr ''t2'')) = ''Hi''"
proof -
  have h1: "thread_title (get_thread_by_id example_db (PyStr ''t1'')) = ''New Chat''"
    by (rule example_t1)
  have h2: "''t1'' \<in> row_thread_id ` set (rows_of example_db)"
    by (simp add: example_ids)
  have h3: "thread_title (get_thread_by_id example_db (PyStr ''t2'')) \<noteq> ''New Chat''"
    by (simp add: example_t2)
  have h4: "has_column (columns_of example_db) ''thread_title''"
    by (simp add: example_columns example_has_title)
  have h5: "stored_title example_db ''t2'' \<in> {None, Some []}"
    by (simp add: example_t2_stored)
  note h6 = example_t2_messages
  have long: "''Hello there, how are you doing today?'' \<noteq> []" by simp
  have short: "''A second message'' \<noteq> []" by simp
  from auto_title [where d = example_db and tid = "PyStr ''t1''" and t = "''t1''"
      and s = "''Hello there, how are you doing today?''" and m = "HumanMessage ''Hi''" and ms = "[]"]
    h1 h2 long
  have "stored_title (title_on_user_input example_db (PyStr ''t1'') ''Hello there, how are you doing today?'') ''t1''
       = Some (if length ''Hello there, how are you doing today?'' > 20
               then take 20 ''Hello there, how are you doing today?'' @ ''...''
               else ''Hello there, how are you doing today?'')"
    by blast
  then have a: "stored_title (title_on_user_input example_db (PyStr ''t1'') ''Hello there, how are you doing today?'') ''t1''
       = Some ''Hello there, how are...''"
    by simp
  from auto_title [where d = example_db and tid = "PyStr ''t2''" and t = "''t2''"
      and s = "''A second message''" and m = "HumanMessage ''Hi''" and ms = "[]"]
    h3 h4 h5 h6
  have b: "title_on_user_input example_db (PyStr ''t2'') ''A second message'' = example_db"
    and "thread_title (get_thread_by_id example_db (PyStr ''t2''))
          = (if length (content (HumanMessage ''Hi'')) > 20
             then take 20 (content (HumanMessage ''Hi'')) @ ''...'' else content (HumanMessage ''Hi''))"
    by blast+
  then have c: "thread_title (get_thread_by_id example_db (PyStr ''t2'')) = ''Hi''"
    by simp
  show ?thesis using h1 h2 h3 h4 h5 h6 a b c by simp
qed

text \<open>
  C4, as amended.  The message \<open>What is 12 times 7?\<close> has 19 characters, which is not
  more than 20, so the title derived from it is the message itself, not truncated.
\<close>

theorem first_message_title_example:
  "length ''What is 12 times 7?'' = 19
   \<and> title_of_text ''What is 12 times 7?'' = ''What is 12 times 7?''
   \<and> stored_title (title_on_user_input example_db (PyStr ''t1'') ''What is 12 times 7?'') ''t1''
       = Some ''What is 12 times 7?''"
  by (simp add: title_of_text_def title_on_user_input_def example_t1 example_update_t1
      stored_title_def Let_def)

text \<open>
  C4, as stated, fails: the title derived from \<open>What is 12 times 7?\<close> is not its first 20
  characters followed by \<open>...\<close>.
\<close>

theorem first_message_title_counterexample:
  "title_of_text ''What is 12 times 7?'' \<noteq> take 20 ''What is 12 times 7?'' @ ''...''
   \<and> stored_title (title_on_user_input example_db (PyStr ''t1'') ''What is 12 times 7?'') ''t1''
       \<noteq> Some (take 20 ''What is 12 times 7?'' @ ''...'')"
  by (simp add: title_of_text_def title_on_user_input_def example_t1 example_update_t1
      stored_title_def Let_def)



text \<open>
  C6.  Renaming changes titles of the rows of that thread only: the thread ids and the
  messages of all rows stay, the rows of other threads stay as they are, every thread
  loads the same conversation as before, and every other thread is reported by
  \<open>get_thread_by_id\<close> as before.  For a thread that exists, the call succeeds and every
  row of the thread carries the new title.
\<close>

theorem rename_frame:
  "(let d' = snd (update_thread_title d tid new_title)
    in map row_thread_id (rows_of d') = map row_thread_id (rows_of d)
       \<and> map row_messages (rows_of d') = map row_messages (rows_of d)
       \<and> filter (\<lambda>r. row_thread_id r \<noteq> py_str tid) (rows_of d')
           = filter (\<lambda>r. row_thread_id r \<noteq> py_str tid) (rows_of d)
       \<and> (\<forall>t. load_conversation d' t = load_conversation d t)
       \<and> (\<forall>t. py_str t \<noteq> py_str tid \<longrightarrow> get_thread_by_id d' t = get_thread_by_id d t)
       \<and> (has_column (columns_of d) ''thread_title'' \<and> tid = PyStr s
            \<and> s \<in> row_thread_id ` set (rows_of d) \<longrightarrow>
              fst (update_thread_title d tid new_title)
                = (True, ''Thread title updated successfully for ID: '' @ s)
              \<and> (\<forall>r \<in> set (rows_of d'). row_thread_id r = s \<longrightarrow> row_thread_title r = Some new_title)))"
proof -
  obtain f where rows: "rows_of (snd (update_thread_title d tid new_title)) = map f (rows_of d)"
    and f: "\<forall>r. row_thread_id (f r) = row_thread_id r \<and> row_messages (f r) = row_messages r
              \<and> (row_thread_id r \<noteq> py_str tid \<longrightarrow> f r = r)"
    using update_rows_shape by blast
  have ids: "map row_thread_id (rows_of (snd (update_thread_title d tid new_title))) = map row_thread_id (rows_of d)"
    unfolding rows using f by simp
  have msgs: "map row_messages (rows_of (snd (update_thread_title d tid new_title))) = map row_messages (rows_of d)"
    unfolding rows using f by simp
  have others: "filter (\<lambda>r. row_thread_id r \<noteq> py_str tid) (rows_of (snd (update_thread_title d tid new_title)))
           = filter (\<lambda>r. row_thread_id r \<noteq> py_str tid) (rows_of d)"
    unfolding rows using f by (intro filter_map_frame) auto
  have existing: "fst (update_thread_title d tid new_title)
                = (True, ''Thread title updated successfully for ID: '' @ s)
              \<and> (\<forall>r \<in> set (rows_of (snd (update_thread_title d tid new_title))).
                     row_thread_id r = s \<longrightarrow> row_thread_title r = Some new_title)"
    if "has_column (columns_of d) ''thread_title''" "tid = PyStr s" "s \<in> row_thread_id ` set (rows_of d)"
  proof -
    from that obtain cols rs where d: "d = Table cols rs" by (cases d) (auto simp: has_column_def)
    from update_existing [of cols s rs new_title] that d show ?thesis by auto
  qed
  show ?thesis
    unfolding Let_def
    using ids msgs others existing load_conversation_update get_thread_update_other by blast
qed

theorem rename_frame_witness:
  "has_column (columns_of example_db) ''thread_title''
   \<and> ''t1'' \<in> row_thread_id ` set (rows_of example_db)
   \<and> py_str (PyStr ''t2'') \<noteq> py_str (PyStr ''t1'')
   \<and> fst (update_thread_title example_db (PyStr ''t1'') ''Renamed'')
       = (True, ''Thread title updated successfully for ID: t1'')
   \<and> load_conversation (snd (update_thread_title example_db (PyStr ''t1'') ''Renamed'')) (PyStr ''t1'')
       = load_conversation example_db (PyStr ''t1'')
   \<and> get_thread_by_id (snd (update_thread_title example_db (PyStr ''t1'') ''Renamed'')) (PyStr ''t2'')
       = get_thread_by_id example_db (PyStr ''t2'')"
  using rename_frame [of example_db "PyStr ''t1''" "''Renamed''" "''t1''"] example_has_title example_ids
  by (simp add: example_columns Let_def)

text \<open>
  C7.  Deleting one thread (a truthy id) succeeds, removes exactly the rows of that
  thread, so that its conversation is empty and a following \<open>retrieve_all_threads\<close> does
  not list it.  Deleting all threads succeeds with a message that counts the distinct
  thread ids of the store, removes every row, and a following \<open>retrieve_all_threads\<close>
  returns the empty list.
\<close>

theorem delete_threads_effect:
  "(truthy tid \<longrightarrow>
      fst (delete_threads d tid) = (True, ''Successfully deleted conversation with ID: '' @ py_str tid)
      \<and> rows_of (snd (delete_threads d tid)) = filter (\<lambda>r. row_thread_id r \<noteq> py_str tid) (rows_of d)
      \<and> load_conversation (snd (delete_threads d tid)) tid = []
      \<and> PyStr (py_str tid) \<notin> thread_id ` set (fst (retrieve_all_threads (snd (delete_threads d tid)))))
   \<and> fst (delete_threads d PyNone) =
       (True, ''Successfully deleted '' @ show_nat (card (row_thread_id ` set (rows_of d))) @ '' conversations'')
   \<and> rows_of (snd (delete_threads d PyNone)) = []
   \<and> fst (retrieve_all_threads (snd (delete_threads d PyNone))) = []"
proof -
  have single: "rows_of (delete_thread d tid) = filter (\<lambda>r. row_thread_id r \<noteq> py_str tid) (rows_of d)"
    by (cases d) (simp_all add: delete_thread_def)
  have load: "load_conversation (delete_thread d tid) tid = []"
    by (simp add: load_conversation_def single filter_empty_conv split: list.splits)
  have "PyStr (py_str tid) \<notin> insert PyNone (PyStr ` row_thread_id ` set (rows_of (delete_thread d tid)))"
    by (auto simp: single)
  with retrieve_ids have listed: "PyStr (py_str tid) \<notin> thread_id ` set (fst (retrieve_all_threads (delete_thread d tid)))"
    by blast
  have rows: "rows_of (saver_setup d) = rows_of d" by (cases d) simp_all
  have count: "fst (delete_threads d PyNone) =
       (True, ''Successfully deleted '' @ show_nat (card (row_thread_id ` set (rows_of d))) @ '' conversations'')"
    by (simp add: delete_threads_def Let_def all_thread_ids_def rows length_remdups_card_conv)
  have gone: "snd (delete_threads d PyNone) = Table (columns_of (saver_setup d)) []"
    by (rule delete_all_rows)
  show ?thesis using single load listed count
    by (simp add: gone retrieve_empty) (simp add: delete_threads_def)
qed

theorem delete_threads_effect_witness:
  "truthy (PyStr ''t1'')
   \<and> fst (delete_threads example_db (PyStr ''t1''))
       = (True, ''Successfully deleted conversation with ID: t1'')
   \<and> rows_of (snd (delete_threads example_db (PyStr ''t1'')))
       = [\<lparr>row_thread_id = ''t2'', row_messages = [HumanMessage ''Hi''], row_thread_title = None\<rparr>]
   \<and> PyStr ''t1'' \<notin> thread_id ` set (fst (retrieve_all_threads (snd (delete_threads example_db (PyStr ''t1'')))))
   \<and> fst (delete_threads example_db PyNone) = (True, ''Successfully deleted 2 conversations'')
   \<and> fst (retrieve_all_threads (snd (delete_threads example_db PyNone))) = []"
proof -
  have c: "card {''t1'', ''t2''} = (2::nat)" by simp
  have r: "filter (\<lambda>r. row_thread_id r \<noteq> ''t1'') (rows_of example_db)
           = [\<lparr>row_thread_id = ''t2'', row_messages = [HumanMessage ''Hi''], row_thread_title = None\<rparr>]"
    by (simp add: example_db_def example_rows_def)
  show ?thesis
    using delete_threads_effect [of "PyStr ''t1''" example_db]
    by (simp add: example_ids c r digit_char_def)
qed

text \<open>
  C8.  Adding the column \<open>thread_title\<close> twice in succession: both calls report \<open>True\<close>,
  the second call finds the column and leaves the table unchanged.  This holds for a
  table none of whose columns is \<open>thread_title\<close> in another letter case, as is the
  table the checkpointer creates, before and after the column has been added.  For any
  column name, a column found by \<open>PRAGMA table_info\<close> is reported as existing without
  \<open>ALTER TABLE\<close>, and a missing table makes the function return, without raising and
  without change, that the table is not created yet.
\<close>

theorem add_thread_title_idempotent:
  "add_column_to_checkpoints_table NoTable column_name column_type
     = ((False, ''Table '' @ squote ''checkpoints'' @ '' not created yet.''), NoTable)
   \<and> (column_name \<in> set (map fst cols) \<longrightarrow>
        add_column_to_checkpoints_table (Table cols rows) column_name column_type
          = ((True, ''Column '' @ squote column_name @ '' already exists.''), Table cols rows))
   \<and> ((\<forall>c \<in> set (map fst cols). same_column c ''thread_title'' \<longrightarrow> c = ''thread_title'') \<longrightarrow>
        (let (r1, d1) = add_column_to_checkpoints_table (Table cols rows) ''thread_title'' ''TEXT'';
             (r2, d2) = add_column_to_checkpoints_table d1 ''thread_title'' ''TEXT''
         in fst r1 \<and> fst r2 \<and> d2 = d1
            \<and> r2 = (True, ''Column '' @ squote ''thread_title'' @ '' already exists.'')
            \<and> columns_of d1 = (if ''thread_title'' \<in> set (map fst cols) then cols
                               else cols @ [(''thread_title'', ''TEXT'')])))"
proof -
  have none: "add_column_to_checkpoints_table NoTable column_name column_type
     = ((False, ''Table '' @ squote ''checkpoints'' @ '' not created yet.''), NoTable)"
    by (simp add: add_column_to_checkpoints_table_def add_column_try_def)
  have twice: "(let (r1, d1) = add_column_to_checkpoints_table (Table cols rows) ''thread_title'' ''TEXT'';
             (r2, d2) = add_column_to_checkpoints_table d1 ''thread_title'' ''TEXT''
         in fst r1 \<and> fst r2 \<and> d2 = d1
            \<and> r2 = (True, ''Column '' @ squote ''thread_title'' @ '' already exists.'')
            \<and> columns_of d1 = (if ''thread_title'' \<in> set (map fst cols) then cols
                               else cols @ [(''thread_title'', ''TEXT'')]))"
    if h: "\<forall>c \<in> set (map fst cols). same_column c ''thread_title'' \<longrightarrow> c = ''thread_title''"
  proof (cases "''thread_title'' \<in> set (map fst cols)")
    case True
    then show ?thesis by (simp add: add_existing)
  next
    case False
    with h have fresh: "\<not> has_column cols ''thread_title''"
      unfolding has_column_def by blast
    show ?thesis using False
      by (simp add: add_fresh [OF fresh] add_existing)
  qed
  show ?thesis using none add_existing twice by blast
qed

theorem add_thread_title_idempotent_witness:
  "\<not> has_column saver_columns ''thread_title''
   \<and> (let (r1, d1) = add_column_to_checkpoints_table (Table saver_columns []) ''thread_title'' ''TEXT'';
           (r2, d2) = add_column_to_checkpoints_table d1 ''thread_title'' ''TEXT''
       in fst r1 \<and> fst r2 \<and> d2 = d1
          \<and> r2 = (True, ''Column '' @ squote ''thread_title'' @ '' already exists.'')
          \<and> columns_of d1 = titled_columns)"
proof -
  have f: "\<not> has_column saver_columns ''thread_title''"
    by (simp add: has_column_def saver_columns_def same_column_def lower_char_def)
  have h: "\<forall>c \<in> set (map fst saver_columns). same_column c ''thread_title'' \<longrightarrow> c = ''thread_title''"
    by (simp add: saver_columns_def same_column_def lower_char_def)
  have n: "''thread_title'' \<notin> set (map fst saver_columns)"
    by (simp add: saver_columns_def)
  from add_thread_title_idempotent [where cols = saver_columns and rows = "[]"
      and column_name = "''thread_title''" and column_type = "''TEXT''"] h
  have "(let (r1, d1) = add_column_to_checkpoints_table (Table saver_columns []) ''thread_title'' ''TEXT'';
             (r2, d2) = add_column_to_checkpoints_table d1 ''thread_title'' ''TEXT''
         in fst r1 \<and> fst r2 \<and> d2 = d1
            \<and> r2 = (True, ''Column '' @ squote ''thread_title'' @ '' already exists.'')
            \<and> columns_of d1 = (if ''thread_title'' \<in> set (map fst saver_columns) then saver_columns
                               else saver_columns @ [(''thread_title'', ''TEXT'')]))"
    by blast
  then have "(let (r1, d1) = add_column_to_checkpoints_table (Table saver_columns []) ''thread_title'' ''TEXT'';
           (r2, d2) = add_column_to_checkpoints_table d1 ''thread_title'' ''TEXT''
       in fst r1 \<and> fst r2 \<and> d2 = d1
          \<and> r2 = (True, ''Column '' @ squote ''thread_title'' @ '' already exists.'')
          \<and> columns_of d1 = titled_columns)"
    unfolding titled_columns_def using n by (simp only: if_False)
  with f show ?thesis by blast
qed

text \<open>
  C9, as amended.  On a table with the title column, \<open>retrieve_all_threads\<close> returns
  every thread id of the store exactly once and leaves the store unchanged; the title
  of each is the stored title if it is neither \<open>NULL\<close> nor empty (also when it is
  \<open>New Chat\<close>), else the title derived from the first message of the conversation if
  there is one, else \<open>New Chat\<close>.
\<close>

theorem list_threads_titles:
  assumes "has_column cols ''thread_title''"
  shows "(let d = Table cols rows; objs = fst (retrieve_all_threads d)
          in distinct (map thread_id objs)
             \<and> set (map thread_id objs) = PyStr ` row_thread_id ` set rows
             \<and> snd (retrieve_all_threads d) = d
             \<and> (\<forall>obj \<in> set objs. \<exists>t. thread_id obj = PyStr t
                   \<and> messages obj = load_conversation d (PyStr t)
                   \<and> thread_title obj =
                       (case stored_title d t of
                          Some (c # cs) \<Rightarrow> c # cs
                        | _ \<Rightarrow> (case messages obj of
                                  [] \<Rightarrow> ''New Chat''
                                | m # _ \<Rightarrow> if length (content m) > 20
                                           then take 20 (content m) @ ''...'' else content m))))"
proof -
  let ?d = "Table cols rows"
  let ?ids = "remdups (map row_thread_id rows)"
  let ?mk = "\<lambda>t. \<lparr>thread_id = PyStr t, messages = load_conversation ?d (PyStr t),
                  thread_title =
                    (case stored_title ?d t of
                       Some (c # cs) \<Rightarrow> c # cs
                     | _ \<Rightarrow> (case load_conversation ?d (PyStr t) of
                               [] \<Rightarrow> ''New Chat''
                             | m # _ \<Rightarrow> if length (content m) > 20
                                        then take 20 (content m) @ ''...'' else content m))\<rparr>"
  have r: "retrieve_all_threads ?d = (map ?mk ?ids, ?d)"
    by (simp add: retrieve_all_threads_def all_thread_ids_def Let_def threads_loop_titled [OF assms])
  have ids: "map thread_id (map ?mk ?ids) = map PyStr ?ids"
    by simp
  have dist: "distinct (map thread_id (map ?mk ?ids))"
    unfolding ids by (simp add: distinct_map inj_on_def)
  have set_ids: "set (map thread_id (map ?mk ?ids)) = PyStr ` row_thread_id ` set rows"
    unfolding ids by simp
  have each: "\<exists>t. thread_id obj = PyStr t
                   \<and> messages obj = load_conversation ?d (PyStr t)
                   \<and> thread_title obj =
                       (case stored_title ?d t of
                          Some (c # cs) \<Rightarrow> c # cs
                        | _ \<Rightarrow> (case messages obj of
                                  [] \<Rightarrow> ''New Chat''
                                | m # _ \<Rightarrow> if length (content m) > 20
                                           then take 20 (content m) @ ''...'' else content m))"
    if "obj \<in> set (map ?mk ?ids)" for obj
  proof -
    from that obtain t where o: "obj = ?mk t" by auto
    have m: "messages obj = load_conversation ?d (PyStr t)" by (simp add: o)
    have "thread_id obj = PyStr t" by (simp add: o)
    moreover have "thread_title obj =
                       (case stored_title ?d t of
                          Some (c # cs) \<Rightarrow> c # cs
                        | _ \<Rightarrow> (case messages obj of
                                  [] \<Rightarrow> ''New Chat''
                                | m # _ \<Rightarrow> if length (content m) > 20
                                           then take 20 (content m) @ ''...'' else content m))"
      unfolding m by (simp add: o)
    ultimately show ?thesis using m by blast
  qed
  show ?thesis unfolding Let_def r fst_conv snd_conv
    using dist set_ids each by blast
qed

theorem list_threads_titles_witness:
  "has_column titled_columns ''thread_title''
   \<and> set (map thread_id (fst (retrieve_all_threads example_db))) = {PyStr ''t1'', PyStr ''t2''}
   \<and> distinct (map thread_id (fst (retrieve_all_threads example_db)))
   \<and> snd (retrieve_all_threads example_db) = example_db"
proof -
  have ids: "PyStr ` row_thread_id ` set example_rows = {PyStr ''t1'', PyStr ''t2''}"
    by (auto simp: example_rows_def)
  from list_threads_titles [OF example_has_title, of example_rows]
  have "distinct (map thread_id (fst (retrieve_all_threads example_db)))
        \<and> set (map thread_id (fst (retrieve_all_threads example_db))) = PyStr ` row_thread_id ` set example_rows
        \<and> snd (retrieve_all_threads example_db) = example_db"
    unfolding Let_def example_db_def [symmetric] by blast
  then show ?thesis using example_has_title ids by simp
qed

text \<open>
  C9, as stated, fails: thread \<open>t1\<close> of the example store has the stored title
  \<open>New Chat\<close> and the first message \<open>Hello\<close>; it is listed with the title \<open>New Chat\<close>,
  where the precedence of the specification (a stored title counts only if it is not the
  default) gives \<open>Hello\<close>.
\<close>

theorem list_threads_titles_counterexample:
  "stored_title example_db ''t1'' = Some ''New Chat''
   \<and> load_conversation example_db (PyStr ''t1'') = [HumanMessage ''Hello'', AIMessage ''Hi there'']
   \<and> \<lparr>thread_id = PyStr ''t1'', messages = [HumanMessage ''Hello'', AIMessage ''Hi there''],
       thread_title = ''New Chat''\<rparr> \<in> set (fst (retrieve_all_threads example_db))
   \<and> spec_list_title (stored_title example_db ''t1'') (load_conversation example_db (PyStr ''t1''))
       = ''Hello''
   \<and> ''New Chat'' \<noteq> spec_list_title (stored_title example_db ''t1'')
                        (load_conversation example_db (PyStr ''t1''))"
proof -
  have s: "stored_title example_db ''t1'' = Some ''New Chat''"
    by (simp add: stored_title_def example_db_def example_rows_def)
  have l: "load_conversation example_db (PyStr ''t1'') = [HumanMessage ''Hello'', AIMessage ''Hi there'']"
    by (simp add: load_conversation_def example_db_def example_rows_def)
  show ?thesis
    by (simp add: s l ex_retrieve spec_list_title_def title_of_text_def)
qed

text \<open>
  C10.  The falsy arguments are \<open>None\<close>, the empty string and \<open>0\<close>.  For each of them
  \<open>delete_threads\<close> does what it does without argument: it deletes every row of the
  store and reports the number of threads deleted.
\<close>

theorem delete_falsy_deletes_all:
  "(\<not> truthy tid \<longleftrightarrow> tid \<in> {PyNone, PyStr [], PyInt 0})
   \<and> (\<not> truthy tid \<longrightarrow>
        delete_threads d tid = delete_threads d PyNone
        \<and> rows_of (snd (delete_threads d tid)) = []
        \<and> fst (delete_threads d tid)
            = (True, ''Successfully deleted '' @ show_nat (card (row_thread_id ` set (rows_of d)))
                     @ '' conversations''))"
proof -
  have "\<not> truthy tid \<longleftrightarrow> tid \<in> {PyNone, PyStr [], PyInt 0}"
    by (cases tid) auto
  moreover have "rows_of (snd (delete_threads d tid)) = []
        \<and> fst (delete_threads d tid)
            = (True, ''Successfully deleted '' @ show_nat (card (row_thread_id ` set (rows_of d)))
                     @ '' conversations'')" if "\<not> truthy tid"
    using delete_falsy [OF that, of d] delete_all_result [of d] by simp
  ultimately show ?thesis using delete_falsy by blast
qed

theorem delete_falsy_deletes_all_witness:
  "\<not> truthy (PyStr [])
   \<and> delete_threads example_db (PyStr []) = delete_threads example_db PyNone
   \<and> rows_of (snd (delete_threads example_db (PyStr []))) = []
   \<and> fst (delete_threads example_db (PyStr [])) = (True, ''Successfully deleted 2 conversations'')"
proof -
  have c: "card {''t1'', ''t2''} = (2::nat)" by simp
  show ?thesis
    using delete_falsy_deletes_all [of "PyStr []" example_db]
    by (auto simp: example_ids c digit_char_def)
qed

end
